theory Spec2Isabelle
  imports Complex_Main
begin

section \<open>The XAUUSD tick logger: data model\<close>

text \<open>
  The logger (\<^verbatim>\<open>src/logging/mt5_logger.py\<close>) is one module: a few helper functions, a
  block of module-level variables and an endless loop. The module-level variables and the
  files the loop writes are collected in the record \<open>logger_state\<close>; everything the loop
  reads from outside (the result of the MT5 call, the wall clock, whether a file write
  completes) is an input of the cycle, collected in the record \<open>cycle_env\<close>.

  Prices are IEEE doubles in the source. The model carries them as values of a type
  variable \<open>'f\<close> and does no arithmetic on them: the three rounded float columns
  (\<^verbatim>\<open>spread_pct\<close>, \<^verbatim>\<open>mid\<close>, \<^verbatim>\<open>bid_ask_imbalance\<close>) and the ISO-8601 renderings of
  instants are not part of the model.
\<close>

datatype py_error = KeyError | AttributeError | TypeError | ValueError | OSError

datatype session = Asia | London | NewYork | LondonNY_Overlap

text \<open>
  A \<^verbatim>\<open>datetime\<close> in UTC. The calendar date is kept as the number of days since
  1970-01-01; the source reads \<^verbatim>\<open>hour\<close>, \<^verbatim>\<open>minute\<close> and the weekday only.
\<close>

record datetime =
  epoch_day :: int
  hour :: nat
  minute :: nat
  second :: nat
  microsecond :: nat

text \<open>
  \<^verbatim>\<open>msc_to_dt(time_msc) = datetime.fromtimestamp(time_msc / 1000.0, tz=timezone.utc)\<close>.
  Python floors towards the earlier instant for negative timestamps, as \<open>div\<close> and
  \<open>mod\<close> on \<open>int\<close> do.
\<close>

definition msc_to_dt :: "int \<Rightarrow> datetime" where
  "msc_to_dt t =
     \<lparr>epoch_day = t div 86400000,
      hour = nat ((t div 3600000) mod 24),
      minute = nat ((t div 60000) mod 60),
      second = nat ((t div 1000) mod 60),
      microsecond = nat (t mod 1000) * 1000\<rparr>"

text \<open>
  \<^verbatim>\<open>h = dt.hour + dt.minute / 60.0\<close>: the fractional hour, here an exact rational. The
  source computes it in double precision; for an hour up to 23 and a minute up to 59 the
  double lies between the hour and the next hour, as the exact value does, so every
  comparison of \<open>h\<close> with an integer bound comes out the same.
\<close>

definition frac_hour :: "datetime \<Rightarrow> rat" where
  "frac_hour dt = of_nat (hour dt) + of_nat (minute dt) / 60"

definition get_session :: "datetime \<Rightarrow> session" where
  "get_session dt =
     (let h = frac_hour dt in
      if 12 \<le> h \<and> h < 16 then LondonNY_Overlap
      else if 7 \<le> h \<and> h < 16 then London
      else if 12 \<le> h \<and> h < 21 then NewYork
      else Asia)"

text \<open>\<^verbatim>\<open>dt.strftime("%A")\<close> and pandas' \<^verbatim>\<open>day_name()\<close>: 1970-01-01 was a Thursday.\<close>

definition day_name :: "datetime \<Rightarrow> string" where
  "day_name dt =
     [''Monday'', ''Tuesday'', ''Wednesday'', ''Thursday'', ''Friday'', ''Saturday'', ''Sunday'']
       ! nat ((epoch_day dt + 3) mod 7)"

text \<open>\<^verbatim>\<open>flag_description\<close>: bit \<open>k\<close> of the mask is \<^verbatim>\<open>flags & 2**k\<close>.\<close>

fun join_bar :: "string list \<Rightarrow> string" where
  "join_bar [] = []"
| "join_bar [p] = p"
| "join_bar (p # q # ps) = p @ ''|'' @ join_bar (q # ps)"

definition flag_description :: "nat \<Rightarrow> string" where
  "flag_description flags =
     (let parts =
        (if bit flags 1 then [''BID''] else []) @
        (if bit flags 2 then [''ASK''] else []) @
        (if bit flags 3 then [''LAST''] else []) @
        (if bit flags 4 then [''VOLUME''] else []) @
        (if bit flags 5 then [''BUY''] else []) @
        (if bit flags 6 then [''SELL''] else [])
      in if parts \<noteq> [] then join_bar parts else ''TICK'')"

subsection \<open>Ticks\<close>

text \<open>One row of the structured array that \<^verbatim>\<open>mt5.copy_ticks_from\<close> returns.\<close>

record 'f raw_tick =
  time_msc :: int
  bid :: 'f
  ask :: 'f
  last_price :: 'f
  volume :: nat
  volume_real :: 'f
  flags :: nat

text \<open>
  The value of the loop variable \<^verbatim>\<open>ticks_raw\<close> after the fetch: either the Python list
  \<^verbatim>\<open>[]\<close> that the loop itself puts there (lines 443 and 451), which has no columns, or a
  structured array with the tick columns and any number of rows.
\<close>

datatype 'f ticks = Empty_list | Tick_array "'f raw_tick list"

fun len :: "'f ticks \<Rightarrow> nat" where
  "len Empty_list = 0"
| "len (Tick_array rows) = length rows"

record 'f enriched_tick =
  raw :: "'f raw_tick"
  flag_desc :: string
  session :: session
  day_of_week :: string
  hour_utc :: nat

definition enrich :: "'f raw_tick \<Rightarrow> 'f enriched_tick" where
  "enrich r =
     (let dts = msc_to_dt (time_msc r) in
      \<lparr>raw = r,
       flag_desc = flag_description (flags r),
       session = get_session dts,
       day_of_week = day_name dts,
       hour_utc = hour dts\<rparr>)"

text \<open>
  \<^verbatim>\<open>process_ticks\<close>. \<^verbatim>\<open>pd.DataFrame([])\<close> is a frame without columns, so on the list
  \<^verbatim>\<open>[]\<close> the first column read, \<^verbatim>\<open>df["time_msc"]\<close>, raises \<^verbatim>\<open>KeyError\<close>; a structured
  array keeps its columns even with zero rows, and every column operation of the function
  is row-wise. Timestamps are taken to lie in the range of \<^verbatim>\<open>datetime\<close>.
\<close>

fun process_ticks :: "'f ticks \<Rightarrow> py_error + 'f enriched_tick list" where
  "process_ticks Empty_list = Inl KeyError"
| "process_ticks (Tick_array rows) = Inr (map enrich rows)"

text \<open>
  \<^verbatim>\<open>int(ticks_raw["time_msc"].max())\<close>: a list cannot be indexed by a column name, and
  numpy's \<^verbatim>\<open>max\<close> of a zero-length array raises \<^verbatim>\<open>ValueError\<close>.
\<close>

fun time_msc_max :: "'f ticks \<Rightarrow> py_error + int" where
  "time_msc_max Empty_list = Inl TypeError"
| "time_msc_max (Tick_array []) = Inl ValueError"
| "time_msc_max (Tick_array (r # rows)) = Inr (fold max (map time_msc rows) (time_msc r))"

text \<open>
  \<^verbatim>\<open>append_ticks\<close>: nothing is written for an empty frame; otherwise the rows go to the end
  of the tick CSV. The flag says whether \<^verbatim>\<open>to_csv\<close> completes; when it raises, the log is
  taken to be as before.
\<close>

definition append_ticks ::
  "bool \<Rightarrow> 'f enriched_tick list \<Rightarrow> 'f enriched_tick list \<Rightarrow> py_error + 'f enriched_tick list" where
  "append_ticks io_ok df csv =
     (if length df = 0 then Inr csv
      else if io_ok then Inr (csv @ df)
      else Inl OSError)"


subsection \<open>The persisted watermark\<close>

text \<open>
  What \<^verbatim>\<open>json.load\<close> can return. Numbers written with a fraction or an exponent
  (Python floats) are left out.
\<close>

datatype json =
    JNull
  | JBool bool
  | JInt int
  | JStr string
  | JList "json list"
  | JDict "(string \<times> json) list"

text \<open>
  The file \<^verbatim>\<open>state.json\<close>, by what \<^verbatim>\<open>open\<close> and \<^verbatim>\<open>json.load\<close> do with it: \<open>Absent\<close>
  raises \<^verbatim>\<open>FileNotFoundError\<close>, \<open>Malformed\<close> raises \<^verbatim>\<open>json.JSONDecodeError\<close>, and
  \<open>Holds j\<close> parses to the value \<open>j\<close>.
\<close>

datatype state_file = Absent | Malformed | Holds json

text \<open>
  \<^verbatim>\<open>state.get("last_time_msc", 0)\<close>: only a dict has \<^verbatim>\<open>get\<close>; on any other parsed value
  the attribute lookup raises \<^verbatim>\<open>AttributeError\<close>, which the \<^verbatim>\<open>except\<close> clause of
  \<^verbatim>\<open>load_state\<close> (\<^verbatim>\<open>FileNotFoundError\<close>, \<^verbatim>\<open>json.JSONDecodeError\<close>) does not catch.
\<close>

fun stored_value :: "state_file \<Rightarrow> py_error + json" where
  "stored_value Absent = Inr (JInt 0)"
| "stored_value Malformed = Inr (JInt 0)"
| "stored_value (Holds (JDict kvs)) =
     Inr (case map_of kvs ''last_time_msc'' of None \<Rightarrow> JInt 0 | Some j \<Rightarrow> j)"
| "stored_value (Holds _) = Inl AttributeError"

text \<open>
  The operands Python accepts in \<^verbatim>\<open>v <= 0\<close> and \<^verbatim>\<open>v > now_msc\<close>: an int, or a bool
  (a subclass of int, \<^verbatim>\<open>True == 1\<close>). Comparing \<^verbatim>\<open>None\<close>, a string, a list or a dict with
  an int raises \<^verbatim>\<open>TypeError\<close>.
\<close>

fun as_int :: "json \<Rightarrow> int option" where
  "as_int (JInt n) = Some n"
| "as_int (JBool b) = Some (if b then 1 else 0)"
| "as_int _ = None"

text \<open>\<^verbatim>\<open>load_state\<close>; \<open>now_msc\<close> is the value of \<^verbatim>\<open>int(time.time() * 1000)\<close>.\<close>

definition load_state :: "state_file \<Rightarrow> int \<Rightarrow> py_error + int" where
  "load_state f now_msc =
     (case stored_value f of
        Inl err \<Rightarrow> Inl err
      | Inr j \<Rightarrow>
          (case as_int j of
             None \<Rightarrow> Inl TypeError
           | Some v \<Rightarrow> if v \<le> 0 \<or> v > now_msc then Inr (now_msc - 2000) else Inr v))"

subsection \<open>The state of the process\<close>

text \<open>The lines the loop prints with \<^verbatim>\<open>log\<close>, by their tag.\<close>

datatype log_line =
    TICKS_MT5_error int
  | TICKS_attempt_failed nat
  | TICKS_timestamp_reset
  | STATE_save_failed
  | SESSION_change "session option" session
  | ERROR_outer_loop
  | SHUTDOWN

record session_event =
  time_dt :: datetime
  new_session :: session
  prev :: "session option"
  weekday :: string

text \<open>
  The module-level variables \<^verbatim>\<open>last_time_msc\<close>, \<^verbatim>\<open>fail_count\<close>, \<^verbatim>\<open>total_ticks\<close> and
  \<^verbatim>\<open>_current_session\<close>, the data rows of the tick CSV and of the session CSV, the state
  file, and the console output. The periodic OHLCV, DOM, metadata and heartbeat tasks catch
  their own exceptions and touch none of these variables or files; they are not modelled.
\<close>

record 'f logger_state =
  last_time_msc :: int
  fail_count :: nat
  total_ticks :: nat
  current_session :: "session option"
  tick_csv :: "'f enriched_tick list"
  session_csv :: "session_event list"
  state_file :: state_file
  console :: "log_line list"

definition log_msg :: "log_line \<Rightarrow> 'f logger_state \<Rightarrow> 'f logger_state" where
  "log_msg msg s = s\<lparr>console := console s @ [msg]\<rparr>"

definition MAX_FAILS :: nat where
  "MAX_FAILS = 5"

text \<open>
  \<^verbatim>\<open>save_state\<close> absorbs every exception of its write. \<open>Open_failed\<close>: \<^verbatim>\<open>open(..., "w")\<close>
  raises and the file is as before. \<open>Dump_failed\<close>: the file was opened, hence truncated,
  and the write raises before the object is closed, leaving text that does not parse.
  Of the three keys written only \<^verbatim>\<open>last_time_msc\<close> is ever read back; the two ISO-8601
  strings are left out.
\<close>

datatype write_outcome = Written | Open_failed | Dump_failed

definition save_state :: "write_outcome \<Rightarrow> int \<Rightarrow> 'f logger_state \<Rightarrow> 'f logger_state" where
  "save_state w t s =
     (case w of
        Written \<Rightarrow> s\<lparr>state_file := Holds (JDict [(''last_time_msc'', JInt t)])\<rparr>
      | Open_failed \<Rightarrow> log_msg STATE_save_failed s
      | Dump_failed \<Rightarrow> log_msg STATE_save_failed (s\<lparr>state_file := Malformed\<rparr>))"

text \<open>
  \<^verbatim>\<open>check_session_change\<close>. The held label is updated before the row is written, so it
  stays updated when the write raises; the second component says whether the call raised.
\<close>

definition check_session_change ::
  "bool \<Rightarrow> datetime \<Rightarrow> 'f logger_state \<Rightarrow> 'f logger_state \<times> bool" where
  "check_session_change io_ok dt s =
     (let sess = get_session dt in
      if Some sess \<noteq> current_session s then
        (let row = \<lparr>time_dt = dt, new_session = sess, prev = current_session s,
                    weekday = day_name dt\<rparr>;
             s1 = s\<lparr>current_session := Some sess\<rparr>
         in if io_ok
            then (log_msg (SESSION_change (prev row) sess)
                    (s1\<lparr>session_csv := session_csv s1 @ [row]\<rparr>), False)
            else (s1, True))
      else (s, False))"

subsection \<open>One iteration of the main loop\<close>

text \<open>
  What \<^verbatim>\<open>mt5.copy_ticks_from\<close> does inside the inner \<^verbatim>\<open>try\<close>: it raises, it returns
  \<^verbatim>\<open>None\<close> (then \<^verbatim>\<open>mt5.last_error()[0]\<close> is the code carried here), or it returns a
  structured array.
\<close>

datatype 'f fetch_result = Raised | Returned_None int | Returned "'f raw_tick list"

record 'f cycle_env =
  fetch :: "'f fetch_result"
  now_msc :: int
  append_io :: bool
  save_io :: write_outcome
  session_io :: bool

text \<open>The outer \<^verbatim>\<open>except Exception\<close>: the error is logged and the loop goes on.\<close>

definition outer_handler :: "'f logger_state \<Rightarrow> 'f logger_state" where
  "outer_handler s = log_msg ERROR_outer_loop s"

text \<open>Lines 465 to 474: the dedup check, enrichment, append, watermark advance, save.\<close>

definition ingest :: "'f logger_state \<Rightarrow> 'f ticks \<Rightarrow> 'f cycle_env \<Rightarrow> 'f logger_state" where
  "ingest s ticks_raw e =
     (if len ticks_raw > 0 then
        (case time_msc_max ticks_raw of
           Inl err \<Rightarrow> outer_handler s
         | Inr new_last \<Rightarrow>
             if new_last > last_time_msc s then
               (case process_ticks ticks_raw of
                  Inl err \<Rightarrow> outer_handler s
                | Inr df \<Rightarrow>
                    (case append_ticks (append_io e) df (tick_csv s) of
                       Inl err \<Rightarrow> outer_handler s
                     | Inr csv \<Rightarrow>
                         (let s1 = s\<lparr>tick_csv := csv,
                                     total_ticks := total_ticks s + length df,
                                     last_time_msc := new_last + 1\<rparr>;
                              s2 = save_state (save_io e) (last_time_msc s1) s1;
                              (s3, raised) = check_session_change (session_io e) (msc_to_dt new_last) s2
                          in if raised then outer_handler s3 else s3)))
             else s)
      else s)"

text \<open>
  Lines 443 to 462: the fetch with its two outcomes. \<open>Raised\<close> stands for any exception
  inside the inner \<^verbatim>\<open>try\<close>. \<open>now_msc e\<close> is the clock reading \<^verbatim>\<open>int(time.time() * 1000)\<close>
  of line 459. The sleeps are not modelled.
\<close>

definition cycle :: "'f logger_state \<Rightarrow> 'f cycle_env \<Rightarrow> 'f logger_state" where
  "cycle s e =
     (case fetch e of
        Raised \<Rightarrow>
          (let s1 = s\<lparr>fail_count := fail_count s + 1\<rparr>;
               s2 = log_msg (TICKS_attempt_failed (fail_count s1)) s1
           in if fail_count s2 \<ge> MAX_FAILS
              then (log_msg TICKS_timestamp_reset (s2\<lparr>last_time_msc := now_msc e - 1000\<rparr>))
                     \<lparr>fail_count := 0\<rparr>
              else s2)
      | Returned_None err \<Rightarrow>
          ingest ((if err \<noteq> 0 \<and> err \<noteq> 1 then log_msg (TICKS_MT5_error err) s else s)
                    \<lparr>fail_count := 0\<rparr>) Empty_list e
      | Returned rows \<Rightarrow> ingest (s\<lparr>fail_count := 0\<rparr>) (Tick_array rows) e)"

text \<open>The loop over a finite run of iterations.\<close>

fun run :: "'f logger_state \<Rightarrow> 'f cycle_env list \<Rightarrow> 'f logger_state" where
  "run s [] = s"
| "run s (e # es) = run (cycle s e) es"

text \<open>
  Start-up, lines 407 to 413: the watermark is loaded, the counters are zero, and no
  session label is held. The two CSV files are whatever earlier runs left.
\<close>

definition initial_state ::
  "int \<Rightarrow> state_file \<Rightarrow> 'f enriched_tick list \<Rightarrow> session_event list \<Rightarrow> 'f logger_state" where
  "initial_state v f ticks_on_disk sessions_on_disk =
     \<lparr>last_time_msc = v, fail_count = 0, total_ticks = 0, current_session = None,
      tick_csv = ticks_on_disk, session_csv = sessions_on_disk, state_file = f,
      console = []\<rparr>"

definition startup ::
  "state_file \<Rightarrow> 'f enriched_tick list \<Rightarrow> session_event list \<Rightarrow> int \<Rightarrow> py_error + 'f logger_state" where
  "startup f ticks_on_disk sessions_on_disk now =
     (case load_state f now of
        Inl err \<Rightarrow> Inl err
      | Inr v \<Rightarrow> Inr (initial_state v f ticks_on_disk sessions_on_disk))"

text \<open>The \<^verbatim>\<open>KeyboardInterrupt\<close> branch: the watermark is saved and the loop ends.\<close>

definition shutdown :: "write_outcome \<Rightarrow> 'f logger_state \<Rightarrow> 'f logger_state" where
  "shutdown w s = log_msg SHUTDOWN (save_state w (last_time_msc s) s)"


subsection \<open>Vocabulary of the properties\<close>

text \<open>
  The state after a batch has been appended: lines 470 to 472, with the maximum of the
  \<^verbatim>\<open>time_msc\<close> column written as \<open>Max\<close>.
\<close>

definition advanced :: "'f logger_state \<Rightarrow> 'f raw_tick list \<Rightarrow> 'f logger_state" where
  "advanced s rows =
     s\<lparr>tick_csv := tick_csv s @ map enrich rows,
       total_ticks := total_ticks s + length rows,
       last_time_msc := Max (time_msc ` set rows) + 1\<rparr>"

text \<open>An iteration in which every file write completes.\<close>

definition writes_complete :: "'f fetch_result \<Rightarrow> int \<Rightarrow> 'f cycle_env" where
  "writes_complete r now =
     \<lparr>fetch = r, now_msc = now, append_io = True, save_io = Written, session_io = True\<rparr>"

text \<open>A bid and ask quote, for the examples; prices as exact decimals.\<close>

definition tick :: "int \<Rightarrow> rat \<Rightarrow> rat \<Rightarrow> rat raw_tick" where
  "tick t b a =
     \<lparr>time_msc = t, bid = b, ask = a, last_price = 0, volume = 0, volume_real = 0, flags = 6\<rparr>"










section \<open>Properties\<close>

subsection \<open>Session classifier\<close>

lemma msc_to_dt_valid: "hour (msc_to_dt t) < 24 \<and> minute (msc_to_dt t) < 60"
  by (simp add: msc_to_dt_def nat_less_iff)

text \<open>
  The classifier by whole hours: since the minute adds less than one hour, the fractional
  hour passes an integer threshold exactly when the hour does.
\<close>

lemma get_session_by_hour:
  assumes "minute dt < 60"
  shows "get_session dt =
           (if 12 \<le> hour dt \<and> hour dt < 16 then LondonNY_Overlap
            else if 7 \<le> hour dt \<and> hour dt < 12 then London
            else if 16 \<le> hour dt \<and> hour dt < 21 then NewYork
            else Asia)"
proof -
  have m: "rat_of_nat (minute dt) / 60 < 1" "0 \<le> rat_of_nat (minute dt) / 60"
    using assms by simp_all
  have lo: "(rat_of_nat k \<le> frac_hour dt) = (k \<le> hour dt)" for k
  proof
    assume "rat_of_nat k \<le> frac_hour dt"
    then have "rat_of_nat k < rat_of_nat (hour dt) + 1"
      using m by (simp add: frac_hour_def)
    then have "rat_of_nat k < rat_of_nat (hour dt + 1)" by simp
    then have "k < hour dt + 1" by (simp only: of_nat_less_iff)
    then show "k \<le> hour dt" by simp
  next
    assume "k \<le> hour dt"
    then have "rat_of_nat k \<le> rat_of_nat (hour dt)" by simp
    then show "rat_of_nat k \<le> frac_hour dt"
      using m by (simp add: frac_hour_def)
  qed
  have hi: "(frac_hour dt < rat_of_nat k) = (hour dt < k)" for k
    using lo by (simp add: not_le [symmetric])
  have "get_session dt =
      (if rat_of_nat 12 \<le> frac_hour dt \<and> frac_hour dt < rat_of_nat 16 then LondonNY_Overlap
       else if rat_of_nat 7 \<le> frac_hour dt \<and> frac_hour dt < rat_of_nat 16 then London
       else if rat_of_nat 12 \<le> frac_hour dt \<and> frac_hour dt < rat_of_nat 21 then NewYork
       else Asia)"
    by (simp add: get_session_def Let_def)
  then show ?thesis unfolding lo hi by auto
qed

text \<open>
  C6. For every UTC instant (a \<^verbatim>\<open>datetime\<close>, whose minute is below 60), with
  \<open>h = hour + minute / 60\<close> the classifier returns \<open>LondonNY_Overlap\<close> when
  \<open>12 \<le> h < 16\<close>, otherwise \<open>London\<close> when \<open>7 \<le> h < 16\<close>, otherwise \<open>NewYork\<close> when
  \<open>12 \<le> h < 21\<close>, and otherwise \<open>Asia\<close>; every instant whose hour is 13 is classified
  \<open>LondonNY_Overlap\<close>.
\<close>

theorem get_session_classifier:
  assumes "minute dt < 60"
  shows "(let h = rat_of_nat (hour dt) + rat_of_nat (minute dt) / 60 in
          get_session dt =
            (if 12 \<le> h \<and> h < 16 then LondonNY_Overlap
             else if 7 \<le> h \<and> h < 16 then London
             else if 12 \<le> h \<and> h < 21 then NewYork
             else Asia))
         \<and> (hour dt = 13 \<longrightarrow> get_session dt = LondonNY_Overlap)"
  using assms by (simp add: get_session_def frac_hour_def Let_def)

theorem get_session_classifier_witness:
  "minute (msc_to_dt 1699968600000) < 60
   \<and> hour (msc_to_dt 1699968600000) = 13
   \<and> get_session (msc_to_dt 1699968600000) = LondonNY_Overlap"
  using get_session_classifier [of "msc_to_dt 1699968600000"]
  by (simp add: msc_to_dt_def)

subsection \<open>The paths through one iteration\<close>

lemma time_msc_max_Inr:
  "time_msc_max (Tick_array rows) = Inr m \<longleftrightarrow> rows \<noteq> [] \<and> m = Max (time_msc ` set rows)"
proof (cases rows)
  case Nil
  then show ?thesis by simp
next
  case (Cons r rs)
  have "fold max (map time_msc rs) (time_msc r) = Max (set (time_msc r # map time_msc rs))"
    by (simp only: Max.set_eq_fold)
  then show ?thesis using Cons by auto
qed

lemma time_msc_max_nonempty:
  "rows \<noteq> [] \<Longrightarrow> time_msc_max (Tick_array rows) = Inr (Max (time_msc ` set rows))"
  by (simp add: time_msc_max_Inr)

lemma check_session_change_frame:
  "last_time_msc (fst (check_session_change io dt s)) = last_time_msc s"
  "fail_count (fst (check_session_change io dt s)) = fail_count s"
  "total_ticks (fst (check_session_change io dt s)) = total_ticks s"
  "tick_csv (fst (check_session_change io dt s)) = tick_csv s"
  "state_file (fst (check_session_change io dt s)) = state_file s"
  by (simp_all add: check_session_change_def Let_def log_msg_def)

lemma save_state_frame:
  "last_time_msc (save_state w t s) = last_time_msc s"
  "fail_count (save_state w t s) = fail_count s"
  "total_ticks (save_state w t s) = total_ticks s"
  "tick_csv (save_state w t s) = tick_csv s"
  "current_session (save_state w t s) = current_session s"
  "session_csv (save_state w t s) = session_csv s"
  by (simp_all add: save_state_def log_msg_def split: write_outcome.splits)

lemma save_state_file:
  "state_file (save_state w t s) =
     (case w of Written \<Rightarrow> Holds (JDict [(''last_time_msc'', JInt t)])
      | Open_failed \<Rightarrow> state_file s
      | Dump_failed \<Rightarrow> Malformed)"
  by (simp add: save_state_def log_msg_def split: write_outcome.splits)

lemma outer_handler_frame:
  "last_time_msc (outer_handler s) = last_time_msc s"
  "fail_count (outer_handler s) = fail_count s"
  "total_ticks (outer_handler s) = total_ticks s"
  "tick_csv (outer_handler s) = tick_csv s"
  "current_session (outer_handler s) = current_session s"
  "session_csv (outer_handler s) = session_csv s"
  "state_file (outer_handler s) = state_file s"
  by (simp_all add: outer_handler_def log_msg_def)

text \<open>The three ways through \<open>ingest\<close>.\<close>

lemma ingest_empty: "len ticks_raw = 0 \<Longrightarrow> ingest s ticks_raw e = s"
  by (simp add: ingest_def)

lemma ingest_dedup:
  assumes "rows \<noteq> []" "Max (time_msc ` set rows) \<le> last_time_msc s"
  shows "ingest s (Tick_array rows) e = s"
proof -
  have "\<not> last_time_msc s < Max (time_msc ` set rows)"
    using assms(2) by linarith
  then show ?thesis
    using assms(1) by (simp add: ingest_def time_msc_max_nonempty)
qed

lemma ingest_append_raises:
  "rows \<noteq> [] \<Longrightarrow> last_time_msc s < Max (time_msc ` set rows) \<Longrightarrow> \<not> append_io e \<Longrightarrow>
   ingest s (Tick_array rows) e = outer_handler s"
  by (simp add: ingest_def time_msc_max_nonempty append_ticks_def)

lemma ingest_new:
  assumes "rows \<noteq> []" "last_time_msc s < Max (time_msc ` set rows)" "append_io e"
  shows "ingest s (Tick_array rows) e =
     (let s2 = save_state (save_io e) (Max (time_msc ` set rows) + 1) (advanced s rows);
          r = check_session_change (session_io e) (msc_to_dt (Max (time_msc ` set rows))) s2
      in if snd r then outer_handler (fst r) else fst r)"
  using assms
  by (simp add: ingest_def time_msc_max_nonempty append_ticks_def advanced_def Let_def
      case_prod_beta)

lemma ingest_new_fields:
  assumes "rows \<noteq> []" "last_time_msc s < Max (time_msc ` set rows)" "append_io e"
  shows "last_time_msc (ingest s (Tick_array rows) e) = Max (time_msc ` set rows) + 1"
    and "tick_csv (ingest s (Tick_array rows) e) = tick_csv s @ map enrich rows"
    and "total_ticks (ingest s (Tick_array rows) e) = total_ticks s + length rows"
    and "fail_count (ingest s (Tick_array rows) e) = fail_count s"
    and "state_file (ingest s (Tick_array rows) e) =
           state_file (save_state (save_io e) (Max (time_msc ` set rows) + 1) s)"
  using assms
  by (simp_all add: ingest_new Let_def outer_handler_frame check_session_change_frame
      save_state_frame save_state_file advanced_def split: write_outcome.splits)


lemma ingest_fail_count: "fail_count (ingest s ticks_raw e) = fail_count s"
  by (simp add: ingest_def Let_def outer_handler_frame check_session_change_frame
      save_state_frame case_prod_beta split: sum.splits)

lemma cycle_Raised:
  "fetch e = Raised \<Longrightarrow>
   cycle s e =
     (if MAX_FAILS \<le> fail_count s + 1
      then s\<lparr>fail_count := 0, last_time_msc := now_msc e - 1000,
             console := console s @ [TICKS_attempt_failed (fail_count s + 1), TICKS_timestamp_reset]\<rparr>
      else s\<lparr>fail_count := fail_count s + 1,
             console := console s @ [TICKS_attempt_failed (fail_count s + 1)]\<rparr>)"
  by (simp add: cycle_def Let_def log_msg_def)

lemma cycle_Returned:
  "fetch e = Returned rows \<Longrightarrow> cycle s e = ingest (s\<lparr>fail_count := 0\<rparr>) (Tick_array rows) e"
  by (simp add: cycle_def)

lemma cycle_Returned_None:
  "fetch e = Returned_None err \<Longrightarrow>
   cycle s e = (if err \<noteq> 0 \<and> err \<noteq> 1 then log_msg (TICKS_MT5_error err) s else s)\<lparr>fail_count := 0\<rparr>"
  by (simp add: cycle_def ingest_empty)

lemma cycle_returned_fail_count: "fetch e \<noteq> Raised \<Longrightarrow> fail_count (cycle s e) = 0"
  by (cases "fetch e") (simp_all add: cycle_Returned cycle_Returned_None ingest_fail_count)


lemma run_append: "run s (xs @ ys) = run (run s xs) ys"
  by (induction xs arbitrary: s) simp_all

lemma run_failures_below:
  assumes "\<forall>e\<in>set es. fetch e = Raised" "fail_count s + length es < MAX_FAILS"
  shows "last_time_msc (run s es) = last_time_msc s
       \<and> fail_count (run s es) = fail_count s + length es
       \<and> total_ticks (run s es) = total_ticks s
       \<and> tick_csv (run s es) = tick_csv s
       \<and> current_session (run s es) = current_session s
       \<and> session_csv (run s es) = session_csv s
       \<and> state_file (run s es) = state_file s"
  using assms
proof (induction es arbitrary: s)
  case Nil
  then show ?case by simp
next
  case (Cons e es)
  have step: "cycle s e = s\<lparr>fail_count := fail_count s + 1,
             console := console s @ [TICKS_attempt_failed (fail_count s + 1)]\<rparr>"
    using Cons.prems by (simp add: cycle_Raised)
  have "fail_count (cycle s e) + length es < MAX_FAILS"
    using Cons.prems step by simp
  with Cons.IH [of "cycle s e"] Cons.prems(1) show ?case
    by (simp add: step)
qed



subsection \<open>Fetch failures\<close>

text \<open>
  C3. When the consecutive-failure counter reaches \<open>MAX_FAILS\<close>, which is 5, the watermark
  is reset to the clock reading minus 1000 ms and the counter to zero. Stated over a run:
  from a counter \<open>c\<close>, the failures that bring it to \<open>MAX_FAILS - 1\<close> leave the watermark
  alone, and the next failure resets it. The reset changes nothing else of the tick log,
  the tick counter, the session label or the session log, and an iteration whose fetch
  returns then goes straight on to the ingestion of lines 465 to 474.
\<close>

theorem forced_reset_at_max_fails:
  assumes "\<forall>e\<in>set es. fetch e = Raised" and "fetch e = Raised"
    and "fail_count s + length es + 1 = MAX_FAILS"
  shows "MAX_FAILS = 5
       \<and> last_time_msc (run s es) = last_time_msc s
       \<and> last_time_msc (run s (es @ [e])) = now_msc e - 1000
       \<and> fail_count (run s (es @ [e])) = 0
       \<and> tick_csv (run s (es @ [e])) = tick_csv s
       \<and> total_ticks (run s (es @ [e])) = total_ticks s
       \<and> current_session (run s (es @ [e])) = current_session s
       \<and> session_csv (run s (es @ [e])) = session_csv s
       \<and> (fetch e' = Returned rows \<longrightarrow>
            cycle (run s (es @ [e])) e' = ingest (run s (es @ [e])) (Tick_array rows) e')"
proof -
  have below: "fail_count s + length es < MAX_FAILS"
    using assms(3) by simp
  note pre = run_failures_below [OF assms(1) below]
  have reach: "MAX_FAILS \<le> fail_count (run s es) + 1"
    using pre assms(3) by simp
  have last: "run s (es @ [e]) = cycle (run s es) e"
    by (simp add: run_append)
  have five: "MAX_FAILS = 5"
    by (simp add: MAX_FAILS_def)
  have kept: "last_time_msc (run s es) = last_time_msc s"
    using pre by simp
  have reset: "last_time_msc (run s (es @ [e])) = now_msc e - 1000"
    using reach by (simp add: last cycle_Raised [OF assms(2)])
  have zero: "fail_count (run s (es @ [e])) = 0"
    using reach by (simp add: last cycle_Raised [OF assms(2)])
  have frame: "tick_csv (run s (es @ [e])) = tick_csv s"
    "total_ticks (run s (es @ [e])) = total_ticks s"
    "current_session (run s (es @ [e])) = current_session s"
    "session_csv (run s (es @ [e])) = session_csv s"
    using reach pre by (simp_all add: last cycle_Raised [OF assms(2)])
  have resume: "fetch e' = Returned rows \<longrightarrow>
           cycle (run s (es @ [e])) e' = ingest (run s (es @ [e])) (Tick_array rows) e'"
  proof
    assume r: "fetch e' = Returned rows"
    have "(run s (es @ [e]))\<lparr>fail_count := 0\<rparr> = run s (es @ [e])"
      using zero
      by (metis logger_state.update_convs(2) logger_state.surjective
          logger_state.select_convs(2))
    then show "cycle (run s (es @ [e])) e' = ingest (run s (es @ [e])) (Tick_array rows) e'"
      by (simp add: cycle_Returned [OF r])
  qed
  from five kept reset zero frame resume show ?thesis
    by blast
qed

text \<open>
  Five failed fetches from a fresh start, the clock of the fifth reading 1700000003000.
\<close>

theorem forced_reset_at_max_fails_witness:
  "(let s = initial_state 1700000000000 Absent [] [] :: rat logger_state;
        es = replicate 4 (writes_complete Raised 1700000002000);
        e = writes_complete Raised 1700000003000;
        rows = [tick 1700000002500 1900 (19003 / 10)];
        e' = writes_complete (Returned rows) 1700000003500
    in list_all (\<lambda>e. fetch e = Raised) es
     \<and> fetch e = Raised
     \<and> fail_count s + length es + 1 = MAX_FAILS
     \<and> fetch e' = Returned rows
     \<and> last_time_msc (run s es) = 1700000000000
     \<and> last_time_msc (run s (es @ [e])) = 1700000002000
     \<and> fail_count (run s (es @ [e])) = 0
     \<and> cycle (run s (es @ [e])) e' = ingest (run s (es @ [e])) (Tick_array rows) e')"
proof -
  let ?s = "initial_state 1700000000000 Absent [] [] :: rat logger_state"
  let ?es = "replicate 4 (writes_complete Raised 1700000002000 :: rat cycle_env)"
  let ?e = "writes_complete Raised 1700000003000 :: rat cycle_env"
  let ?rows = "[tick 1700000002500 1900 (19003 / 10)]"
  let ?e' = "writes_complete (Returned ?rows) 1700000003500"
  have h1: "\<forall>e\<in>set ?es. fetch e = Raised"
    by (simp add: writes_complete_def)
  then have h1': "list_all (\<lambda>e. fetch e = Raised) ?es"
    by (simp only: list_all_iff)
  have h2: "fetch ?e = Raised"
    by (simp add: writes_complete_def)
  have h3: "fail_count ?s + length ?es + 1 = MAX_FAILS"
    by (simp add: initial_state_def MAX_FAILS_def)
  have h4: "fetch ?e' = Returned ?rows"
    by (simp add: writes_complete_def)
  have v: "last_time_msc ?s = 1700000000000" "now_msc ?e - 1000 = 1700000002000"
    by (simp_all add: initial_state_def writes_complete_def)
  note reset = forced_reset_at_max_fails [OF h1 h2 h3, of ?e' ?rows]
  have a: "last_time_msc (run ?s ?es) = 1700000000000"
    using reset v by simp
  have b: "last_time_msc (run ?s (?es @ [?e])) = 1700000002000"
    using reset v by simp
  have c: "fail_count (run ?s (?es @ [?e])) = 0"
    using reset by blast
  have d: "cycle (run ?s (?es @ [?e])) ?e' = ingest (run ?s (?es @ [?e])) (Tick_array ?rows) ?e'"
    using reset h4 by blast
  show ?thesis
    unfolding Let_def using h1' h2 h3 h4 a b c d by blast
qed





subsection \<open>Watermark\<close>

lemma ingest_cases:
  "(last_time_msc (ingest s t e) = last_time_msc s \<and> tick_csv (ingest s t e) = tick_csv s
      \<and> total_ticks (ingest s t e) = total_ticks s \<and> state_file (ingest s t e) = state_file s)
   \<or> (\<exists>rows. t = Tick_array rows \<and> rows \<noteq> [] \<and> last_time_msc s < Max (time_msc ` set rows)
        \<and> append_io e
        \<and> last_time_msc (ingest s t e) = Max (time_msc ` set rows) + 1
        \<and> tick_csv (ingest s t e) = tick_csv s @ map enrich rows
        \<and> total_ticks (ingest s t e) = total_ticks s + length rows)"
proof (cases t)
  case Empty_list
  then show ?thesis by (simp add: ingest_empty)
next
  case (Tick_array rows)
  show ?thesis
  proof (cases "rows = []")
    case True
    with Tick_array show ?thesis by (simp add: ingest_empty)
  next
    case ne: False
    show ?thesis
    proof (cases "last_time_msc s < Max (time_msc ` set rows)")
      case False
      then have "Max (time_msc ` set rows) \<le> last_time_msc s" by simp
      with ne Tick_array show ?thesis by (simp add: ingest_dedup)
    next
      case new: True
      show ?thesis
      proof (cases "append_io e")
        case False
        with ne new Tick_array show ?thesis
          by (simp add: ingest_append_raises outer_handler_frame)
      next
        case True
        with ne new Tick_array show ?thesis
          by (simp add: ingest_new_fields)
      qed
    qed
  qed
qed










text \<open>
  C2. The same non-empty batch in two consecutive iterations is appended at most once.
  When the first iteration appends it, the watermark is past the batch's maximum; and
  whenever the watermark is past the maximum after the first iteration, the second one
  skips: tick log, tick counter, watermark and state file are as the first left them,
  indeed the whole state is.
\<close>

theorem dedup_same_batch:
  assumes "rows \<noteq> []" and "fetch e1 = Returned rows" and "fetch e2 = Returned rows"
  shows "(tick_csv (cycle (cycle s e1) e2) = tick_csv s
          \<or> tick_csv (cycle (cycle s e1) e2) = tick_csv s @ map enrich rows)
       \<and> (last_time_msc s < Max (time_msc ` set rows) \<and> append_io e1 \<longrightarrow>
            tick_csv (cycle s e1) = tick_csv s @ map enrich rows
          \<and> Max (time_msc ` set rows) < last_time_msc (cycle s e1))
       \<and> (Max (time_msc ` set rows) < last_time_msc (cycle s e1) \<longrightarrow>
            tick_csv (cycle (cycle s e1) e2) = tick_csv (cycle s e1)
          \<and> total_ticks (cycle (cycle s e1) e2) = total_ticks (cycle s e1)
          \<and> last_time_msc (cycle (cycle s e1) e2) = last_time_msc (cycle s e1)
          \<and> state_file (cycle (cycle s e1) e2) = state_file (cycle s e1)
          \<and> cycle (cycle s e1) e2 = cycle s e1)"
proof -
  let ?m = "Max (time_msc ` set rows)"
  let ?s1 = "cycle s e1"
  have zero: "fail_count ?s1 = 0"
    using assms(2) by (simp add: cycle_returned_fail_count)
  have same: "?s1\<lparr>fail_count := 0\<rparr> = ?s1"
    using zero
    by (metis logger_state.update_convs(2) logger_state.surjective
        logger_state.select_convs(2))
  have c2: "cycle ?s1 e2 = ingest ?s1 (Tick_array rows) e2"
    by (simp add: cycle_Returned [OF assms(3)] same)
  have c1: "?s1 = ingest (s\<lparr>fail_count := 0\<rparr>) (Tick_array rows) e1"
    by (simp add: cycle_Returned [OF assms(2)])
  have skip: "cycle ?s1 e2 = ?s1" if "?m < last_time_msc ?s1"
  proof -
    have "?m \<le> last_time_msc ?s1"
      using that by (rule less_imp_le)
    from ingest_dedup [OF assms(1) this] show ?thesis
      by (simp only: c2)
  qed
  have first: "tick_csv ?s1 = tick_csv s @ map enrich rows \<and> ?m < last_time_msc ?s1"
    if "last_time_msc s < ?m \<and> append_io e1"
    using that assms(1) by (simp add: c1 ingest_new_fields)
  have once: "tick_csv (cycle ?s1 e2) = tick_csv s
          \<or> tick_csv (cycle ?s1 e2) = tick_csv s @ map enrich rows"
  proof (cases "last_time_msc s < ?m \<and> append_io e1")
    case True
    with first skip show ?thesis by simp
  next
    case False
    then have unchanged: "tick_csv ?s1 = tick_csv s \<and> last_time_msc ?s1 = last_time_msc s"
      using ingest_cases [of "s\<lparr>fail_count := 0\<rparr>" "Tick_array rows" e1]
      by (auto simp add: c1 [symmetric])
    from ingest_cases [of ?s1 "Tick_array rows" e2] show ?thesis
      using unchanged by (auto simp add: c2)
  qed
  from once first skip show ?thesis
    by simp
qed

theorem dedup_same_batch_witness:
  "(let rows = [tick 1700000004000 1900 (19003 / 10), tick 1700000005000 (19001 / 10) (190035 / 100)];
        s = initial_state 1700000000000 Absent [] [];
        e = writes_complete (Returned rows) 1700000000500
    in rows \<noteq> [] \<and> fetch e = Returned rows
     \<and> last_time_msc s < Max (time_msc ` set rows) \<and> append_io e
     \<and> Max (time_msc ` set rows) < last_time_msc (cycle s e)
     \<and> tick_csv (cycle s e) = tick_csv s @ map enrich rows
     \<and> cycle (cycle s e) e = cycle s e)"
proof -
  let ?rows = "[tick 1700000004000 1900 (19003 / 10), tick 1700000005000 (19001 / 10) (190035 / 100)]"
  let ?s = "initial_state 1700000000000 Absent [] [] :: rat logger_state"
  let ?e = "writes_complete (Returned ?rows) 1700000000500"
  have h: "?rows \<noteq> [] \<and> fetch ?e = Returned ?rows
      \<and> last_time_msc ?s < Max (time_msc ` set ?rows) \<and> append_io ?e"
    by (simp add: writes_complete_def initial_state_def tick_def)
  note dd = dedup_same_batch [of ?rows ?e ?e ?s]
  have a: "tick_csv (cycle ?s ?e) = tick_csv ?s @ map enrich ?rows
      \<and> Max (time_msc ` set ?rows) < last_time_msc (cycle ?s ?e)"
    using dd h by blast
  have b: "cycle (cycle ?s ?e) ?e = cycle ?s ?e"
    using dd h a by blast
  show ?thesis
    unfolding Let_def using h a b by blast
qed



subsection \<open>Session transitions\<close>













subsection \<open>Loading the watermark\<close>

text \<open>
  What \<^verbatim>\<open>load_state\<close> returns for a missing file, for a file that does not parse, for an
  object without the key, and for an object with an integer watermark.
\<close>

lemma load_state_missing: "load_state Absent now = Inr (now - 2000)"
  by (simp add: load_state_def)

lemma load_state_unparsable: "load_state Malformed now = Inr (now - 2000)"
  by (simp add: load_state_def)

lemma load_state_stored:
  "map_of kvs ''last_time_msc'' = Some (JInt v) \<Longrightarrow>
   load_state (Holds (JDict kvs)) now = Inr (if v \<le> 0 \<or> now < v then now - 2000 else v)"
  by (simp add: load_state_def)

lemma load_state_no_key:
  "map_of kvs ''last_time_msc'' = None \<Longrightarrow> load_state (Holds (JDict kvs)) now = Inr (now - 2000)"
  by (simp add: load_state_def)


text \<open>
  C5. \<^verbatim>\<open>load_state\<close> does propagate errors. A state file that parses to something other
  than an object makes \<^verbatim>\<open>state.get\<close> raise \<^verbatim>\<open>AttributeError\<close>, and an object whose
  \<^verbatim>\<open>last_time_msc\<close> is \<^verbatim>\<open>null\<close> or a string makes the comparison \<^verbatim>\<open>v <= 0\<close> raise
  \<^verbatim>\<open>TypeError\<close>; neither is caught, and start-up fails with it.
\<close>

theorem load_state_propagates:
  "load_state (Holds (JList [])) now = Inl AttributeError
   \<and> load_state (Holds JNull) now = Inl AttributeError
   \<and> load_state (Holds (JDict [(''last_time_msc'', JNull)])) now = Inl TypeError
   \<and> load_state (Holds (JDict [(''last_time_msc'', JStr ''1700000000000'')])) now = Inl TypeError
   \<and> (startup (Holds (JList [])) tk ev now :: py_error + 'f logger_state) = Inl AttributeError"
  by (simp add: load_state_def startup_def)


subsection \<open>Enrichment of an empty batch\<close>

text \<open>
  C9, as the code has it. On a tick array with zero rows \<^verbatim>\<open>process_ticks\<close> returns an
  empty frame and raises nothing. The loop never applies it to a batch of length zero:
  such an iteration leaves the state as it is.
\<close>

theorem process_ticks_zero_rows:
  "process_ticks (Tick_array []) = Inr []
   \<and> (len ticks_raw = 0 \<longrightarrow> ingest s ticks_raw e = s)"
  by (simp add: ingest_empty)

theorem process_ticks_zero_rows_witness:
  "len (Empty_list :: rat ticks) = 0
   \<and> ingest (initial_state 1700000000000 Absent [] []) (Empty_list :: rat ticks)
        (writes_complete (Returned_None 1) 1700000001000)
      = initial_state 1700000000000 Absent [] []"
  using process_ticks_zero_rows
    [of "Empty_list :: rat ticks" "initial_state 1700000000000 Absent [] []"
        "writes_complete (Returned_None 1) 1700000001000"]
  by simp

text \<open>
  The claim as written fails for the zero-row batch the loop itself builds, the list
  \<^verbatim>\<open>[]\<close> of lines 443 and 451: it has length zero and no columns, and
  \<^verbatim>\<open>process_ticks\<close> raises \<^verbatim>\<open>KeyError\<close> on it.
\<close>

theorem process_ticks_empty_list_raises:
  "len (Empty_list :: rat ticks) = 0 \<and> process_ticks (Empty_list :: rat ticks) = Inl KeyError"
  by simp



subsection \<open>The state file across a forced reset\<close>






end
